theory Spec2Isabelle
  imports Complex_Main
begin

section \<open>Inverse geometry of a manipulator: the notebook \<open>1_invgeom.ipynb\<close>\<close>

text \<open>
  The notebook poses the inverse-geometry problem of a 6-axis arm as the minimisation of a
  pose error and solves it twice: with \<open>scipy.optimize.fmin_bfgs\<close> on a numeric error
  function (part 1), and with IPOPT on a CasADi computation graph (part 2).

  The code of the notebook is glue around three libraries. What the notebook writes itself
  is embedded here as it stands: the cells, their order of calls, the module-level
  variables they read and write, and the \<open>try\<close>/\<open>except\<close> around the solver. The
  libraries are parameters of the development:
  \<^item> the kinematic model loaded by \<open>robex.load("ur5")\<close> is a value of the record
    \<open>model\<close>, whose field \<open>frame_placement\<close> is the forward-kinematics map;
  \<^item> the operations of \<open>pin.SE3\<close> (constructor, inverse, product, logarithm) are a value
    of the record \<open>se3\<close>, over a type \<open>'p\<close> of placements;
  \<^item> the two optimisers are arbitrary strategies that see the notebook only through the
    callables they are handed; the objective of part 2, a CasADi graph, is the function
    handed to the solver.
  Scalars are real numbers; rounding is outside the model. The cells that only load the
  robot, open the viewer, build the CasADi graph or print the placement reached are left
  out.
\<close>

subsection \<open>Values\<close>

type_synonym vec3 = "real \<times> real \<times> real"

type_synonym mat3 = "vec3 \<times> vec3 \<times> vec3"

text \<open>\<open>pin.Motion\<close>: a spatial velocity; \<open>.vector\<close> is the linear part followed by the
  angular part.\<close>

record motion =
  linear_part :: vec3
  angular_part :: vec3

definition vector :: "motion \<Rightarrow> real list" where
  "vector m =
     (case linear_part m of (vx, vy, vz) \<Rightarrow>
      case angular_part m of (wx, wy, wz) \<Rightarrow> [vx, vy, vz, wx, wy, wz])"

text \<open>\<open>numpy.linalg.norm\<close> of a one-dimensional array: the 2-norm.\<close>

definition norm_np :: "real list \<Rightarrow> real" where
  "norm_np v = sqrt (sum_list (map (\<lambda>x. x * x) v))"

text \<open>The exceptions that reach the notebook's code.\<close>

datatype exn =
  ValueError
  | IndexError
  | RuntimeError string
  | KeyboardInterrupt

text \<open>\<open>pin.utils.rotate(axis, ang)\<close>: the rotation matrix about a coordinate axis, by rows;
  an axis that is none of \<open>x\<close>, \<open>y\<close>, \<open>z\<close> is refused.\<close>

definition rotate :: "string \<Rightarrow> real \<Rightarrow> exn + mat3" where
  "rotate axis ang =
     (if axis = ''x'' then Inr ((1, 0, 0), (0, cos ang, - sin ang), (0, sin ang, cos ang))
      else if axis = ''y'' then Inr ((cos ang, 0, sin ang), (0, 1, 0), (- sin ang, 0, cos ang))
      else if axis = ''z'' then Inr ((cos ang, - sin ang, 0), (sin ang, cos ang, 0), (0, 0, 1))
      else Inl ValueError)"

subsection \<open>The libraries\<close>

text \<open>\<open>pin.SE3\<close> and \<open>pin.log\<close>, over placements \<open>'p\<close>: the constructor from a rotation
  matrix and a translation, \<open>.inverse()\<close>, the product \<open>*\<close> and the logarithm.\<close>

record 'p se3 =
  SE3 :: "mat3 \<Rightarrow> vec3 \<Rightarrow> 'p"
  se3_inverse :: "'p \<Rightarrow> 'p"
  se3_mul :: "'p \<Rightarrow> 'p \<Rightarrow> 'p"
  se3_log :: "'p \<Rightarrow> motion"

text \<open>\<open>pin.Model\<close>: the number of configuration coordinates, the frame table, and the
  placement in the world of frame \<open>i\<close> at configuration \<open>q\<close>.\<close>

record 'p model =
  nq :: nat
  frame_names :: "string list"
  frame_placement :: "real list \<Rightarrow> nat \<Rightarrow> 'p"

text \<open>\<open>pin.Data\<close>: the kinematic cache; \<open>oMf\<close> holds one placement for each frame.\<close>

record 'p data =
  oMf :: "'p list"

text \<open>The position of the first frame of a name in the frame table, and the number of
  frames when there is none.\<close>

definition frame_index :: "'p model \<Rightarrow> string \<Rightarrow> nat" where
  "frame_index m name = length (takeWhile (\<lambda>n. n \<noteq> name) (frame_names m))"

text \<open>\<open>model.getFrameId(name)\<close>: that position; a name that several frames carry is
  refused.\<close>

definition getFrameId :: "'p model \<Rightarrow> string \<Rightarrow> exn + nat" where
  "getFrameId m name =
     (if 1 < count_list (frame_names m) name then Inl ValueError
      else Inr (frame_index m name))"

text \<open>\<open>pin.framesForwardKinematics(model, data, q)\<close>: refuses a vector of the wrong size,
  and otherwise recomputes every entry of \<open>data.oMf\<close> from \<open>q\<close>.\<close>

definition framesForwardKinematics :: "'p model \<Rightarrow> 'p data \<Rightarrow> real list \<Rightarrow> exn + 'p data" where
  "framesForwardKinematics m d q =
     (if length q \<noteq> nq m then Inl ValueError
      else Inr (d\<lparr>oMf := map (frame_placement m q) [0..<length (frame_names m)]\<rparr>))"

text \<open>Reading \<open>data.oMf[i]\<close>.\<close>

definition getitem :: "'a list \<Rightarrow> nat \<Rightarrow> exn + 'a" where
  "getitem xs i = (if i < length xs then Inr (xs ! i) else Inl IndexError)"

subsection \<open>The state of the notebook\<close>

text \<open>The MeshCat viewer: the transforms of the two frame markers and the configuration on
  display.\<close>

record 'p viewer =
  target_transform :: "'p option"
  current_transform :: "'p option"
  displayed :: "real list option"

text \<open>The module-level variables, the text printed so far, and the number of pauses of
  \<open>time.sleep(1e-1)\<close> taken.\<close>

record 'p notebook =
  model :: "'p model"
  data :: "'p data"
  tool_id :: nat
  transform_target_to_world :: 'p
  viewer :: "'p viewer"
  pauses :: nat
  stdout :: "string list"
  sol_q :: "real list option"

subsection \<open>Part 1: task parameters, error function, callback\<close>

text \<open>
  \<^verbatim>\<open>
  tool_id = model.getFrameId("tool0")
  transform_target_to_world = pin.SE3(
      pin.utils.rotate("x", np.pi / 4),
      np.array([-0.5, 0.1, 0.2]),
  )
  \<close>
\<close>

definition task_params :: "'p se3 \<Rightarrow> 'p notebook \<Rightarrow> (exn + unit) \<times> 'p notebook" where
  "task_params L s =
     (case getFrameId (model s) ''tool0'' of
        Inl e \<Rightarrow> (Inl e, s)
      | Inr i \<Rightarrow>
          let s1 = s\<lparr>tool_id := i\<rparr> in
          (case rotate ''x'' (pi / 4) of
             Inl e \<Rightarrow> (Inl e, s1)
           | Inr R \<Rightarrow>
               (Inr (),
                s1\<lparr>transform_target_to_world := SE3 L R (- 5 / 10, 1 / 10, 2 / 10)\<rparr>)))"

text \<open>
  \<^verbatim>\<open>
  def error(q: np.ndarray) -> float:
      pin.framesForwardKinematics(model, data, q)
      transform_tool_to_world = data.oMf[tool_id]
      return norm(
          pin.log(transform_tool_to_world.inverse() * transform_target_to_world).vector
      )
  \<close>
  The result is the value returned or the exception raised, with the notebook as the call
  leaves it.
\<close>

definition error :: "'p se3 \<Rightarrow> real list \<Rightarrow> 'p notebook \<Rightarrow> (exn + real) \<times> 'p notebook" where
  "error L q s =
     (case framesForwardKinematics (model s) (data s) q of
        Inl e \<Rightarrow> (Inl e, s)
      | Inr d \<Rightarrow>
          let s1 = s\<lparr>data := d\<rparr> in
          (case getitem (oMf (data s1)) (tool_id s1) of
             Inl e \<Rightarrow> (Inl e, s1)
           | Inr transform_tool_to_world \<Rightarrow>
               (Inr (norm_np (vector (se3_log L
                  (se3_mul L (se3_inverse L transform_tool_to_world)
                     (transform_target_to_world s1))))), s1)))"

text \<open>
  \<^verbatim>\<open>
  def callback(q: np.ndarray):
      pin.framesForwardKinematics(model, data, q)
      transform_frame_to_world = data.oMf[tool_id]
      viewer["target"].set_transform(transform_target_to_world.np)
      viewer["current"].set_transform(transform_frame_to_world.np)
      viz.display(q)
      time.sleep(1e-1)
  \<close>
  The visualiser keeps a cache of its own, so \<open>viz.display\<close> touches the viewer only.
\<close>

definition callback :: "real list \<Rightarrow> 'p notebook \<Rightarrow> (exn + unit) \<times> 'p notebook" where
  "callback q s =
     (case framesForwardKinematics (model s) (data s) q of
        Inl e \<Rightarrow> (Inl e, s)
      | Inr d \<Rightarrow>
          let s1 = s\<lparr>data := d\<rparr> in
          (case getitem (oMf (data s1)) (tool_id s1) of
             Inl e \<Rightarrow> (Inl e, s1)
           | Inr transform_frame_to_world \<Rightarrow>
               let s2 = s1\<lparr>viewer := (viewer s1)
                           \<lparr>target_transform := Some (transform_target_to_world s1)\<rparr>\<rparr>;
                   s3 = s2\<lparr>viewer := (viewer s2)
                           \<lparr>current_transform := Some transform_frame_to_world\<rparr>\<rparr>;
                   s4 = s3\<lparr>viewer := (viewer s3)\<lparr>displayed := Some q\<rparr>\<rparr>;
                   s5 = s4\<lparr>pauses := Suc (pauses s4)\<rparr>
               in (Inr (), s5)))"

text \<open>
  \<^verbatim>\<open>
  qguess = np.array([0.12, -2.2, -1.45, 1.82, -0.95, 0.17])
  qopt = fmin_bfgs(error, qguess, callback=callback)
  \<close>
  \<open>fmin_bfgs\<close> is code of SciPy. It reaches the notebook only by calling the objective it
  was given, by calling the callback once for each iterate, and by returning. A minimiser
  is therefore any strategy of these three moves; what it does next may depend on every
  value the objective has returned so far.
\<close>

datatype minimizer =
  Return "real list"
  | Evaluate "real list" "real \<Rightarrow> minimizer"
  | Iterate "real list" minimizer

primrec fmin_run :: "'p se3 \<Rightarrow> minimizer \<Rightarrow> 'p notebook \<Rightarrow> (exn + real list) \<times> 'p notebook" where
  "fmin_run L (Return xopt) = (\<lambda>s. (Inr xopt, s))"
| "fmin_run L (Evaluate x k) =
     (\<lambda>s. case error L x s of
             (Inl e, s1) \<Rightarrow> (Inl e, s1)
           | (Inr fx, s1) \<Rightarrow> fmin_run L (k fx) s1)"
| "fmin_run L (Iterate xk rest) =
     (\<lambda>s. case callback xk s of
             (Inl e, s1) \<Rightarrow> (Inl e, s1)
           | (Inr u, s1) \<Rightarrow> fmin_run L rest s1)"

definition qguess :: "real list" where
  "qguess = [12 / 100, - 22 / 10, - 145 / 100, 182 / 100, - 95 / 100, 17 / 100]"

definition bfgs_cell ::
  "'p se3 \<Rightarrow> (real list \<Rightarrow> minimizer) \<Rightarrow> 'p notebook \<Rightarrow> (exn + real list) \<times> 'p notebook" where
  "bfgs_cell L fmin_bfgs s = fmin_run L (fmin_bfgs qguess) s"

text \<open>The same strategy run on a function and an observer that have no state.\<close>

primrec fmin_pure ::
  "(real list \<Rightarrow> exn + real) \<Rightarrow> (real list \<Rightarrow> exn + unit) \<Rightarrow> minimizer \<Rightarrow> exn + real list" where
  "fmin_pure f cb (Return xopt) = Inr xopt"
| "fmin_pure f cb (Evaluate x k) =
     (case f x of Inl e \<Rightarrow> Inl e | Inr fx \<Rightarrow> fmin_pure f cb (k fx))"
| "fmin_pure f cb (Iterate xk rest) =
     (case cb xk of Inl e \<Rightarrow> Inl e | Inr u \<Rightarrow> fmin_pure f cb rest)"

subsection \<open>Part 2: IPOPT on the CasADi graph\<close>

text \<open>
  \<^verbatim>\<open>
  opti = casadi.Opti()
  var_q = opti.variable(model.nq)
  \<close>
  The \<open>Opti\<close> object: the latest value of \<open>var_q\<close> that a solver has recorded, none
  before the first, and whether a solve has succeeded. \<open>opti.debug.value(var_q)\<close> reads
  the recorded value and raises when there is none; \<open>opti.value(var_q)\<close> requires a
  solve that has succeeded.
\<close>

record opti =
  latest :: "real list option"
  solved :: bool

definition opti_new :: opti where
  "opti_new = \<lparr>latest = None, solved = False\<rparr>"

definition opti_debug_value :: "opti \<Rightarrow> exn + real list" where
  "opti_debug_value ob =
     (case latest ob of None \<Rightarrow> Inl (RuntimeError ''not solved'') | Some x \<Rightarrow> Inr x)"

definition opti_value :: "opti \<Rightarrow> exn + real list" where
  "opti_value ob =
     (if solved ob then opti_debug_value ob else Inl (RuntimeError ''not solved''))"

text \<open>
  IPOPT is code of another library too. A run is a sequence of iterates, after each of
  which the registered callback is called, and an end: a solution, or an exception. An
  exception in the callback stops the solver, and the solve fails.
  \<^verbatim>\<open>
  opti.callback(lambda i: callback(opti.debug.value(var_q)))
  \<close>
\<close>

datatype ipopt =
  Converged "real list"
  | Failed exn
  | Iteration "real list" ipopt

primrec solve_limited :: "ipopt \<Rightarrow> opti \<Rightarrow> 'p notebook \<Rightarrow> (exn + unit) \<times> opti \<times> 'p notebook" where
  "solve_limited (Converged x) =
     (\<lambda>ob s. (Inr (), ob\<lparr>latest := Some x, solved := True\<rparr>, s))"
| "solve_limited (Failed e) = (\<lambda>ob s. (Inl e, ob, s))"
| "solve_limited (Iteration x rest) =
     (\<lambda>ob s.
        let ob1 = ob\<lparr>latest := Some x\<rparr> in
        case opti_debug_value ob1 of
          Inl e \<Rightarrow> (Inl (RuntimeError ''User_Requested_Stop''), ob1, s)
        | Inr q \<Rightarrow>
            (case callback q s of
               (Inl e, s1) \<Rightarrow> (Inl (RuntimeError ''User_Requested_Stop''), ob1, s1)
             | (Inr u, s1) \<Rightarrow> solve_limited rest ob1 s1))"

text \<open>
  \<^verbatim>\<open>
  opti.minimize(totalcost)
  opti.solver("ipopt")
  try:
      sol = opti.solve_limited()
      sol_q = opti.value(var_q)
  except:
      print("ERROR in convergence, plotting debug info.")
      sol_q = opti.debug.value(var_q)
  \<close>
  The two statements of the \<open>try\<close> block are one computation that takes the first
  exception; the bare \<open>except\<close> has no filter, so the handler runs on every \<open>Inl\<close>.
  The handler prints, and then reads \<open>opti.debug.value(var_q)\<close>, which can raise in its
  turn: nothing catches that, and \<open>sol_q\<close> is not assigned.
\<close>

definition try_block :: "ipopt \<Rightarrow> opti \<Rightarrow> 'p notebook \<Rightarrow> (exn + real list) \<times> opti \<times> 'p notebook" where
  "try_block run ob s =
     (case solve_limited run ob s of
        (Inl e, ob1, s1) \<Rightarrow> (Inl e, ob1, s1)
      | (Inr sol, ob1, s1) \<Rightarrow> (opti_value ob1, ob1, s1))"

definition ipopt_cell ::
  "((real list \<Rightarrow> real) \<Rightarrow> ipopt) \<Rightarrow> (real list \<Rightarrow> real) \<Rightarrow> 'p notebook \<Rightarrow>
     (exn + unit) \<times> opti \<times> 'p notebook" where
  "ipopt_cell solver cost s =
     (case try_block (solver cost) opti_new s of
        (Inr v, ob1, s1) \<Rightarrow> (Inr (), ob1, s1\<lparr>sol_q := Some v\<rparr>)
      | (Inl e, ob1, s1) \<Rightarrow>
          let s2 = s1\<lparr>stdout := stdout s1 @ [''ERROR in convergence, plotting debug info.'']\<rparr>
          in (case opti_debug_value ob1 of
                Inl e' \<Rightarrow> (Inl e', ob1, s2)
              | Inr v \<Rightarrow> (Inr (), ob1, s2\<lparr>sol_q := Some v\<rparr>)))"

subsection \<open>The pose error of the specification\<close>

text \<open>The Euclidean norm of a 6-vector.\<close>

definition euclidean_norm6 :: "real list \<Rightarrow> real" where
  "euclidean_norm6 v =
     sqrt ((v ! 0)\<^sup>2 + (v ! 1)\<^sup>2 + (v ! 2)\<^sup>2 + (v ! 3)\<^sup>2 + (v ! 4)\<^sup>2 + (v ! 5)\<^sup>2)"

text \<open>\<open>M_tool(q)\<close>: the forward-kinematics placement of the tool frame.\<close>

definition M_tool :: "'p notebook \<Rightarrow> real list \<Rightarrow> 'p" where
  "M_tool s q = frame_placement (model s) q (tool_id s)"

text \<open>The formula of the specification, \<open>e(q) = || log(inverse(M_tool(q)) o M_target) ||\<close>,
  written from its words on the pure forward-kinematics map: no cache, no exception.\<close>

definition pose_error :: "'p se3 \<Rightarrow> 'p notebook \<Rightarrow> real list \<Rightarrow> real" where
  "pose_error L s q =
     euclidean_norm6 (vector (se3_log L
       (se3_mul L (se3_inverse L (M_tool s q)) (transform_target_to_world s))))"

text \<open>A configuration is a vector of \<open>nq\<close> reals; the tool frame is in the frame table.\<close>

definition configuration :: "'p notebook \<Rightarrow> real list \<Rightarrow> bool" where
  "configuration s q = (length q = nq (model s))"

definition tool_frame_ok :: "'p notebook \<Rightarrow> bool" where
  "tool_frame_ok s = (tool_id s < length (frame_names (model s)))"

subsection \<open>The task, and a minimiser without its callback\<close>

text \<open>What an optimisation run is given and must not write: the model, the frame index and
  the target pose.\<close>

definition task :: "'p notebook \<Rightarrow> 'p model \<times> nat \<times> 'p" where
  "task s = (model s, tool_id s, transform_target_to_world s)"

primrec without_callback :: "minimizer \<Rightarrow> minimizer" where
  "without_callback (Return xopt) = Return xopt"
| "without_callback (Evaluate x k) = Evaluate x (\<lambda>fx. without_callback (k fx))"
| "without_callback (Iterate xk rest) = without_callback rest"

subsection \<open>An instance: a gantry with a roll wrist\<close>

text \<open>
  The rigid motions that turn about the \<open>x\<close> axis: a placement is the cosine and the sine
  of the angle, and a translation. They are closed under product and inverse, the target
  of the notebook is one of them, and their logarithm has a closed form: the angle about
  \<open>x\<close>, taken in \<open>(-pi, pi]\<close>, and the linear part that belongs to it. The constructor
  reads the angle off the matrix of a rotation about \<open>x\<close>.
\<close>

type_synonym axial = "real \<times> real \<times> vec3"

definition turn :: "real \<Rightarrow> real \<Rightarrow> vec3 \<Rightarrow> vec3" where
  "turn c s p = (case p of (x, y, z) \<Rightarrow> (x, c * y - s * z, s * y + c * z))"

definition axial_inverse :: "axial \<Rightarrow> axial" where
  "axial_inverse m =
     (case m of (c, s, x, y, z) \<Rightarrow> (c, - s, turn c (- s) (- x, - y, - z)))"

definition axial_mul :: "axial \<Rightarrow> axial \<Rightarrow> axial" where
  "axial_mul m n =
     (case m of (c1, s1, x1, y1, z1) \<Rightarrow>
      case n of (c2, s2, p2) \<Rightarrow>
      case turn c1 s1 p2 of (x, y, z) \<Rightarrow>
        (c1 * c2 - s1 * s2, s1 * c2 + c1 * s2, x1 + x, y1 + y, z1 + z))"

definition axial_log :: "axial \<Rightarrow> motion" where
  "axial_log m =
     (case m of (c, s, x, y, z) \<Rightarrow>
        let t = (if 0 \<le> s then arccos c else - arccos c);
            alpha = (if t = 0 then 1 else t * s / (2 * (1 - c)))
        in \<lparr>linear_part = (x, alpha * y + t / 2 * z, alpha * z - t / 2 * y),
            angular_part = (t, 0, 0)\<rparr>)"

definition axial :: "axial se3" where
  "axial =
     \<lparr>SE3 = (\<lambda>R p. case R of (r0, (r10, r11, r12), (r20, r21, r22)) \<Rightarrow> (r11, r21, p)),
      se3_inverse = axial_inverse,
      se3_mul = axial_mul,
      se3_log = axial_log\<rparr>"

text \<open>
  The gantry slides along the three directions and rolls its tool about \<open>x\<close> on three
  coaxial joints. Its frame table has the names the notebook looks up.
\<close>

definition gantry :: "axial model" where
  "gantry =
     \<lparr>nq = 6,
      frame_names = [''universe'', ''tool0''],
      frame_placement = (\<lambda>q i.
        if i = 1 then
          (case q of
             [a, b, c, d, e, f] \<Rightarrow> (cos (d + e + f), sin (d + e + f), a, b, c)
           | _ \<Rightarrow> (1, 0, 0, 0, 0))
        else (1, 0, 0, 0, 0))\<rparr>"

definition gantry_notebook :: "axial notebook" where
  "gantry_notebook =
     snd (task_params axial
       \<lparr>model = gantry, data = \<lparr>oMf = []\<rparr>, tool_id = 0,
        transform_target_to_world = (1, 0, 0, 0, 0),
        viewer = \<lparr>target_transform = None, current_transform = None, displayed = None\<rparr>,
        pauses = 0, stdout = [], sol_q = None\<rparr>)"

section \<open>Properties\<close>

subsection \<open>Vectors and norms\<close>

lemma length_vector: "length (vector m) = 6"
  by (simp add: vector_def split: prod.splits)

lemma norm_np_vector: "norm_np (vector m) = euclidean_norm6 (vector m)"
  by (simp add: vector_def norm_np_def euclidean_norm6_def power2_eq_square split: prod.splits)

subsection \<open>The two functions of part 1, case by case\<close>

lemma error_cases:
  "error L q s =
     (if length q \<noteq> nq (model s) then (Inl ValueError, s)
      else if \<not> tool_id s < length (frame_names (model s)) then
        (Inl IndexError,
         s\<lparr>data := (data s)\<lparr>oMf := map (frame_placement (model s) q)
                                     [0..<length (frame_names (model s))]\<rparr>\<rparr>)
      else
        (Inr (pose_error L s q),
         s\<lparr>data := (data s)\<lparr>oMf := map (frame_placement (model s) q)
                                     [0..<length (frame_names (model s))]\<rparr>\<rparr>))"
  by (simp add: error_def framesForwardKinematics_def getitem_def pose_error_def M_tool_def
      norm_np_vector Let_def)

lemma callback_cases:
  "callback q s =
     (if length q \<noteq> nq (model s) then (Inl ValueError, s)
      else if \<not> tool_id s < length (frame_names (model s)) then
        (Inl IndexError,
         s\<lparr>data := (data s)\<lparr>oMf := map (frame_placement (model s) q)
                                     [0..<length (frame_names (model s))]\<rparr>\<rparr>)
      else
        (Inr (),
         s\<lparr>data := (data s)\<lparr>oMf := map (frame_placement (model s) q)
                                     [0..<length (frame_names (model s))]\<rparr>,
           viewer := (viewer s)\<lparr>target_transform := Some (transform_target_to_world s),
                                 current_transform := Some (M_tool s q),
                                 displayed := Some q\<rparr>,
           pauses := Suc (pauses s)\<rparr>))"
  by (simp add: callback_def framesForwardKinematics_def getitem_def M_tool_def Let_def)

lemma takeWhile_stops: "x \<in> set xs \<Longrightarrow> length (takeWhile (\<lambda>n. n \<noteq> x) xs) < length xs"
  by (induction xs) auto

lemma frame_index_found:
  "name \<in> set (frame_names m) \<Longrightarrow> frame_index m name < length (frame_names m)"
  unfolding frame_index_def by (rule takeWhile_stops)

text \<open>An index that \<open>getFrameId\<close> returns is the position of the name.\<close>

lemma getFrameId_returns: "getFrameId m name = Inr i \<Longrightarrow> i = frame_index m name"
  by (simp add: getFrameId_def split: if_splits)

subsection \<open>The task is a frame of every step\<close>

lemma task_error: "task (snd (error L q s)) = task s"
  by (simp add: error_cases task_def)

lemma task_callback: "task (snd (callback q s)) = task s"
  by (simp add: callback_cases task_def)

lemma error_depends_on_task: "task s' = task s \<Longrightarrow> fst (error L q s') = fst (error L q s)"
  by (simp add: error_cases task_def pose_error_def M_tool_def)

lemma callback_depends_on_task: "task s' = task s \<Longrightarrow> fst (callback q s') = fst (callback q s)"
  by (simp add: callback_cases task_def)

lemma task_fmin_run: "task (snd (fmin_run L opt s)) = task s"
proof (induction opt arbitrary: s)
  case (Return xopt)
  show ?case by simp
next
  case (Evaluate x k)
  show ?case
  proof (cases "error L x s")
    case (Pair r s1)
    then have t: "task s1 = task s" using task_error [of L x s] by simp
    show ?thesis
    proof (cases r)
      case (Inl e)
      with Pair t show ?thesis by simp
    next
      case (Inr fx)
      with Pair t Evaluate.IH [of "k fx" s1] show ?thesis by (simp add: rangeI)
    qed
  qed
next
  case (Iterate xk rest)
  show ?case
  proof (cases "callback xk s")
    case (Pair r s1)
    then have t: "task s1 = task s" using task_callback [of xk s] by simp
    show ?thesis
    proof (cases r)
      case (Inl e)
      with Pair t show ?thesis by simp
    next
      case (Inr u)
      with Pair t Iterate.IH [of s1] show ?thesis by simp
    qed
  qed
qed

text \<open>A run from any notebook with the same task is the stateless run: nothing that
  \<open>error\<close> or \<open>callback\<close> leaves in the notebook reaches the minimiser.\<close>

lemma fmin_run_pure:
  "task s' = task s \<Longrightarrow>
   fst (fmin_run L opt s') = fmin_pure (\<lambda>x. fst (error L x s)) (\<lambda>x. fst (callback x s)) opt"
proof (induction opt arbitrary: s')
  case (Return xopt)
  show ?case by simp
next
  case (Evaluate x k)
  show ?case
  proof (cases "error L x s'")
    case (Pair r s1)
    then have t: "task s1 = task s" using task_error [of L x s'] Evaluate.prems by simp
    from Pair have r: "fst (error L x s) = r"
      using error_depends_on_task [OF Evaluate.prems, of L x] by simp
    show ?thesis
    proof (cases r)
      case (Inl e)
      with Pair r show ?thesis by simp
    next
      case (Inr fx)
      with Pair r Evaluate.IH [of "k fx" s1, OF _ t] show ?thesis by (simp add: rangeI)
    qed
  qed
next
  case (Iterate xk rest)
  show ?case
  proof (cases "callback xk s'")
    case (Pair r s1)
    then have t: "task s1 = task s" using task_callback [of xk s'] Iterate.prems by simp
    from Pair have r: "fst (callback xk s) = r"
      using callback_depends_on_task [OF Iterate.prems, of xk] by simp
    show ?thesis
    proof (cases r)
      case (Inl e)
      with Pair r show ?thesis by simp
    next
      case (Inr u)
      with Pair r Iterate.IH [OF t] show ?thesis by simp
    qed
  qed
qed

lemma fmin_pure_without_callback:
  "fmin_pure f cb opt = Inr x \<Longrightarrow> fmin_pure f cb (without_callback opt) = Inr x"
proof (induction opt)
  case (Return xopt)
  then show ?case by simp
next
  case (Evaluate y k)
  then show ?case by (cases "f y") (simp_all add: rangeI)
next
  case (Iterate xk rest)
  then show ?case by (cases "cb xk") simp_all
qed

subsection \<open>The solve of part 2\<close>

lemma solve_limited_step:
  "solve_limited (Iteration x rest) ob s =
     (case callback x s of
        (Inl e, s1) \<Rightarrow> (Inl (RuntimeError ''User_Requested_Stop''), ob\<lparr>latest := Some x\<rparr>, s1)
      | (Inr u, s1) \<Rightarrow> solve_limited rest (ob\<lparr>latest := Some x\<rparr>) s1)"
  by (simp add: opti_debug_value_def Let_def)

lemma solve_limited_task: "task (snd (snd (solve_limited run ob s))) = task s"
proof (induction run arbitrary: ob s)
  case (Converged x)
  show ?case by simp
next
  case (Failed e)
  show ?case by simp
next
  case (Iteration x rest)
  show ?case
  proof (cases "callback x s")
    case (Pair r s1)
    then have t: "task s1 = task s" using task_callback [of x s] by simp
    show ?thesis
    proof (cases r)
      case (Inl e)
      with Pair t show ?thesis by (simp add: solve_limited_step del: solve_limited.simps)
    next
      case (Inr u)
      with Pair t Iteration.IH [of "ob\<lparr>latest := Some x\<rparr>" s1] show ?thesis
        by (simp add: solve_limited_step del: solve_limited.simps)
    qed
  qed
qed




subsection \<open>The gantry, evaluated\<close>

lemma gantry_fields:
  "model gantry_notebook = gantry"
  "tool_id gantry_notebook = 1"
  "transform_target_to_world gantry_notebook =
     (cos (pi / 4), sin (pi / 4), - 1 / 2, 1 / 10, 1 / 5)"
  "data gantry_notebook = \<lparr>oMf = []\<rparr>"
  "viewer gantry_notebook =
     \<lparr>target_transform = None, current_transform = None, displayed = None\<rparr>"
  "pauses gantry_notebook = 0"
  "stdout gantry_notebook = []"
  "sol_q gantry_notebook = None"
  "nq gantry = 6"
  "frame_names gantry = [''universe'', ''tool0'']"
  by (simp_all add: gantry_notebook_def task_params_def getFrameId_def frame_index_def
      rotate_def gantry_def axial_def Let_def)

lemma gantry_placement:
  "frame_placement gantry [a, b, c, d, e, f] i =
     (if i = 1 then (cos (d + e + f), sin (d + e + f), a, b, c) else (1, 0, 0, 0, 0))"
  by (simp add: gantry_def)

lemma gantry_configuration: "configuration gantry_notebook [a, b, c, d, e, f]"
  by (simp add: configuration_def gantry_fields)

lemma gantry_tool_frame_ok: "tool_frame_ok gantry_notebook"
  by (simp add: tool_frame_ok_def gantry_fields)

lemma sqrt_25: "sqrt 25 = 5"
  using real_sqrt_abs [of 5] by simp

lemma arccos_45: "arccos (sqrt 2 / 2) = pi / 4"
  using arccos_cos [of "pi / 4"] by (simp add: cos_45)

text \<open>The tool turned like the target and five units short of it along \<open>x\<close>; the tool at
  the position of the target and not turned; the tool on the target.\<close>

lemma gantry_pose_error_position:
  "pose_error axial gantry_notebook [9 / 2, 1 / 10, 1 / 5, pi / 4, 0, 0] = 5"
  by (simp add: pose_error_def M_tool_def gantry_fields gantry_placement axial_def
      axial_inverse_def axial_mul_def axial_log_def turn_def
      euclidean_norm6_def vector_def sqrt_25 cos_45 sin_45 Let_def)

lemma gantry_pose_error_orientation:
  "pose_error axial gantry_notebook [- 1 / 2, 1 / 10, 1 / 5, 0, 0, 0] = pi / 4"
  by (simp add: pose_error_def M_tool_def gantry_fields gantry_placement axial_def
      axial_inverse_def axial_mul_def axial_log_def turn_def
      euclidean_norm6_def vector_def arccos_45 cos_45 sin_45 Let_def)

lemma gantry_pose_error_reached:
  "pose_error axial gantry_notebook [- 1 / 2, 1 / 10, 1 / 5, pi / 4, 0, 0] = 0"
  by (simp add: pose_error_def M_tool_def gantry_fields gantry_placement axial_def
      axial_inverse_def axial_mul_def axial_log_def turn_def
      euclidean_norm6_def vector_def cos_45 sin_45 Let_def)

section \<open>The claims\<close>

text \<open>
  Claim C2. At every configuration \<open>q\<close> the numeric error function returns
  \<open>|| log(inverse(M_tool(q)) o M_target) ||\<close>: \<open>M_tool(q)\<close> is the forward-kinematics
  placement of the tool frame, the logarithm yields a vector of six entries, and the norm
  is the Euclidean norm of these six. The function as the notebook has it, with the cache
  it fills and the entry it reads back, computes the formula written from the
  specification, whatever the notebook held before the call.
\<close>

theorem error_is_pose_error:
  assumes "configuration s q" and "tool_frame_ok s"
  shows "fst (error L q s) = Inr (pose_error L s q) \<and>
    length (vector (se3_log L
      (se3_mul L (se3_inverse L (M_tool s q)) (transform_target_to_world s)))) = 6"
proof -
  let ?d = "(data s)\<lparr>oMf := map (frame_placement (model s) q)
                              [0..<length (frame_names (model s))]\<rparr>"
  have fk: "framesForwardKinematics (model s) (data s) q = Inr ?d"
    using assms(1) by (simp add: framesForwardKinematics_def configuration_def)
  have item: "getitem (map (frame_placement (model s) q) [0..<length (frame_names (model s))])
      (tool_id s) = Inr (M_tool s q)"
    using assms(2) by (simp add: getitem_def tool_frame_ok_def M_tool_def)
  have "fst (error L q s) =
      Inr (norm_np (vector (se3_log L
        (se3_mul L (se3_inverse L (M_tool s q)) (transform_target_to_world s)))))"
    by (simp add: error_def fk item Let_def)
  then show ?thesis
    by (simp add: pose_error_def norm_np_vector length_vector)
qed

theorem error_is_pose_error_witness:
  "configuration gantry_notebook [9 / 2, 1 / 10, 1 / 5, pi / 4, 0, 0] \<and>
   configuration gantry_notebook [- 1 / 2, 1 / 10, 1 / 5, 0, 0, 0] \<and>
   configuration gantry_notebook [- 1 / 2, 1 / 10, 1 / 5, pi / 4, 0, 0] \<and>
   tool_frame_ok gantry_notebook \<and>
   fst (error axial [9 / 2, 1 / 10, 1 / 5, pi / 4, 0, 0] gantry_notebook) = Inr 5 \<and>
   fst (error axial [- 1 / 2, 1 / 10, 1 / 5, 0, 0, 0] gantry_notebook) = Inr (pi / 4) \<and>
   fst (error axial [- 1 / 2, 1 / 10, 1 / 5, pi / 4, 0, 0] gantry_notebook) = Inr 0"
proof -
  let ?a = "[9 / 2, 1 / 10, 1 / 5, pi / 4, 0, 0] :: real list"
  let ?b = "[- 1 / 2, 1 / 10, 1 / 5, 0, 0, 0] :: real list"
  let ?c = "[- 1 / 2, 1 / 10, 1 / 5, pi / 4, 0, 0] :: real list"
  have ca: "configuration gantry_notebook ?a" by (rule gantry_configuration)
  have cb: "configuration gantry_notebook ?b" by (rule gantry_configuration)
  have cc: "configuration gantry_notebook ?c" by (rule gantry_configuration)
  have ea: "fst (error axial ?a gantry_notebook) = Inr 5"
    using error_is_pose_error [OF ca gantry_tool_frame_ok, of axial, THEN conjunct1]
    by (simp only: gantry_pose_error_position)
  have eb: "fst (error axial ?b gantry_notebook) = Inr (pi / 4)"
    using error_is_pose_error [OF cb gantry_tool_frame_ok, of axial, THEN conjunct1]
    by (simp only: gantry_pose_error_orientation)
  have ec: "fst (error axial ?c gantry_notebook) = Inr 0"
    using error_is_pose_error [OF cc gantry_tool_frame_ok, of axial, THEN conjunct1]
    by (simp only: gantry_pose_error_reached)
  from ca cb cc gantry_tool_frame_ok ea eb ec show ?thesis by simp
qed




text \<open>
  Claim C7. The value of the error function at \<open>q\<close> is the same whatever the notebook
  holds in the cache \<open>data\<close>: after an evaluation at the same \<open>q\<close>, after one at another
  configuration, after a call of the callback at another configuration, after a whole run
  of a minimiser, and for any cache \<open>d\<close> put in its place. Each call recomputes the
  forward kinematics into the cache before it reads the entry of the tool frame, so the
  value depends on \<open>q\<close>, the model, the frame index and the target alone.
\<close>

theorem error_depends_only_on_q:
  "fst (error L q (snd (error L q s))) = fst (error L q s) \<and>
   fst (error L q (snd (error L q' s))) = fst (error L q s) \<and>
   fst (error L q (snd (callback q' s))) = fst (error L q s) \<and>
   fst (error L q (snd (fmin_run L opt s))) = fst (error L q s) \<and>
   fst (error L q (s\<lparr>data := d\<rparr>)) = fst (error L q s)"
proof (intro conjI)
  show "fst (error L q (snd (error L q s))) = fst (error L q s)"
    by (rule error_depends_on_task) (rule task_error)
  show "fst (error L q (snd (error L q' s))) = fst (error L q s)"
    by (rule error_depends_on_task) (rule task_error)
  show "fst (error L q (snd (callback q' s))) = fst (error L q s)"
    by (rule error_depends_on_task) (rule task_callback)
  show "fst (error L q (snd (fmin_run L opt s))) = fst (error L q s)"
    by (rule error_depends_on_task) (rule task_fmin_run)
  show "fst (error L q (s\<lparr>data := d\<rparr>)) = fst (error L q s)"
    by (rule error_depends_on_task) (simp add: task_def)
qed

theorem error_depends_only_on_q_witness:
  "fst (error axial [9 / 2, 1 / 10, 1 / 5, pi / 4, 0, 0]
     (snd (callback qguess gantry_notebook))) = Inr 5 \<and>
   fst (error axial [9 / 2, 1 / 10, 1 / 5, pi / 4, 0, 0]
     (gantry_notebook\<lparr>data := \<lparr>oMf = [(0, 1, 7, 7, 7)]\<rparr>\<rparr>)) = Inr 5"
proof -
  let ?q = "[9 / 2, 1 / 10, 1 / 5, pi / 4, 0, 0] :: real list"
  have e: "fst (error axial ?q gantry_notebook) = Inr 5"
    by (simp add: error_cases gantry_fields gantry_pose_error_position)
  from error_depends_only_on_q
      [of axial ?q gantry_notebook qguess "Return ?q" "\<lparr>oMf = [(0, 1, 7, 7, 7)]\<rparr>"] e
  show ?thesis by simp
qed

text \<open>
  Claim C8. Through each optimisation run the target pose and the frame index (and the
  model) keep the values they were given: the error function, the callback, every run of
  a minimiser on them, the cell of part 1, the solve of part 2 with its callback and the
  cell around it leave them as they were. What an optimiser works on is its own: the trial
  configurations are the arguments it passes, one for each call. The callback returns
  nothing and what it leaves in the notebook does not reach the minimiser: a run is the
  stateless run on the notebook it started from, and a run that returns returns the same
  configuration with the callback taken out.
\<close>

theorem task_is_read_only:
  "task (snd (error L q s)) = task s \<and>
   task (snd (callback q s)) = task s \<and>
   task (snd (fmin_run L opt s)) = task s \<and>
   task (snd (bfgs_cell L fmin_bfgs s)) = task s \<and>
   task (snd (snd (solve_limited run ob s))) = task s \<and>
   task (snd (snd (ipopt_cell solver cost s))) = task s \<and>
   fst (fmin_run L opt s) = fmin_pure (\<lambda>x. fst (error L x s)) (\<lambda>x. fst (callback x s)) opt \<and>
   (fst (fmin_run L opt s) = Inr xopt \<longrightarrow>
      fst (fmin_run L (without_callback opt) s) = Inr xopt)"
proof -
  have a: "task (snd (snd (ipopt_cell solver cost s))) = task s"
  proof (cases "solve_limited (solver cost) opti_new s")
    case (fields r ob1 s1)
    then have "task s1 = task s"
      using solve_limited_task [of "solver cost" opti_new s] by simp
    with fields show ?thesis
      by (cases r)
        (auto simp: ipopt_cell_def try_block_def task_def Let_def split: sum.splits)
  qed
  have b: "fst (fmin_run L opt s) = Inr xopt \<longrightarrow>
      fst (fmin_run L (without_callback opt) s) = Inr xopt"
    using fmin_pure_without_callback [of "\<lambda>x. fst (error L x s)" "\<lambda>x. fst (callback x s)" opt xopt]
    by (simp add: fmin_run_pure [of s s])
  show ?thesis
    using a b
    by (simp add: task_error task_callback task_fmin_run bfgs_cell_def solve_limited_task
        fmin_run_pure [of s s])
qed

theorem task_is_read_only_witness:
  "fst (fmin_run axial
      (Evaluate qguess (\<lambda>fx. Iterate qguess (Return qguess))) gantry_notebook) = Inr qguess \<and>
   fst (fmin_run axial
      (without_callback (Evaluate qguess (\<lambda>fx. Iterate qguess (Return qguess)))) gantry_notebook) =
     Inr qguess \<and>
   tool_id (snd (fmin_run axial
      (Evaluate qguess (\<lambda>fx. Iterate qguess (Return qguess))) gantry_notebook)) = 1 \<and>
   transform_target_to_world (snd (fmin_run axial
      (Evaluate qguess (\<lambda>fx. Iterate qguess (Return qguess))) gantry_notebook)) =
     (cos (pi / 4), sin (pi / 4), - 1 / 2, 1 / 10, 1 / 5)"
proof -
  let ?opt = "Evaluate qguess (\<lambda>fx. Iterate qguess (Return qguess))"
  note h = task_is_read_only [of axial qguess gantry_notebook ?opt "\<lambda>x. ?opt"
      "Failed ValueError" opti_new "\<lambda>c. Failed ValueError" "\<lambda>x. 0" qguess]
  have r: "fst (fmin_run axial ?opt gantry_notebook) = Inr qguess"
    by (simp add: error_cases callback_cases gantry_fields qguess_def)
  from h r show ?thesis
    by (simp add: task_def gantry_fields)
qed

text \<open>
  Claim C9. The numeric error function returns a real number at every vector of \<open>nq\<close>
  reals, once the frame \<open>tool0\<close> is in the frame table of the model and \<open>tool_id\<close> is
  its position there, which is what \<open>getFrameId\<close> returns when it returns. The function
  tests nothing itself; the two exceptions of its model are those of the library calls,
  and neither is raised here.
\<close>

theorem error_total:
  assumes "''tool0'' \<in> set (frame_names (model s))"
    and "tool_id s = frame_index (model s) ''tool0''"
    and "length q = nq (model s)"
  shows "\<exists>e. fst (error L q s) = Inr e"
proof -
  have "tool_id s < length (frame_names (model s))"
    using assms(1,2) frame_index_found [of "''tool0''" "model s"] by simp
  with assms(3) show ?thesis by (simp add: error_cases)
qed

theorem error_total_witness:
  "''tool0'' \<in> set (frame_names (model gantry_notebook)) \<and>
   getFrameId (model gantry_notebook) ''tool0'' = Inr (tool_id gantry_notebook) \<and>
   tool_id gantry_notebook = frame_index (model gantry_notebook) ''tool0'' \<and>
   length qguess = nq (model gantry_notebook) \<and> nq (model gantry_notebook) = 6 \<and>
   (\<exists>e. fst (error axial qguess gantry_notebook) = Inr e)"
proof -
  have a: "''tool0'' \<in> set (frame_names (model gantry_notebook))"
    by (simp add: gantry_fields)
  have g: "getFrameId (model gantry_notebook) ''tool0'' = Inr (tool_id gantry_notebook)"
    by (simp add: gantry_fields getFrameId_def frame_index_def)
  then have b: "tool_id gantry_notebook = frame_index (model gantry_notebook) ''tool0''"
    by (rule getFrameId_returns)
  have c: "length qguess = nq (model gantry_notebook)"
    by (simp add: gantry_fields qguess_def)
  have d: "nq (model gantry_notebook) = 6"
    by (simp add: gantry_fields)
  from a g b c d error_total [OF a b c, of axial] show ?thesis by blast
qed

text \<open>
  Claim C10. The callback has effects on what the notebook shares. Called at a
  configuration \<open>q\<close> it returns normally, and afterwards: the cache \<open>data.oMf\<close> holds the
  placements at \<open>q\<close>, also when the call follows an evaluation of the error at another
  configuration \<open>q0\<close>; the viewer shows the target, the placement of the tool frame at
  \<open>q\<close> and \<open>q\<close> itself; one more pause has been taken. The frame index, the target pose
  and the model are as before. The argument is a value of the embedding: the calls made
  with it only read it.
\<close>

theorem callback_effects:
  assumes "configuration s q" and "tool_frame_ok s"
  shows "fst (callback q s) = Inr () \<and>
    data (snd (callback q s)) =
      (data s)\<lparr>oMf := map (frame_placement (model s) q) [0..<length (frame_names (model s))]\<rparr> \<and>
    oMf (data (snd (callback q (snd (error L q0 s))))) =
      map (frame_placement (model s) q) [0..<length (frame_names (model s))] \<and>
    viewer (snd (callback q s)) =
      (viewer s)\<lparr>target_transform := Some (transform_target_to_world s),
                 current_transform := Some (M_tool s q),
                 displayed := Some q\<rparr> \<and>
    pauses (snd (callback q s)) = Suc (pauses s) \<and>
    tool_id (snd (callback q s)) = tool_id s \<and>
    transform_target_to_world (snd (callback q s)) = transform_target_to_world s \<and>
    model (snd (callback q s)) = model s"
proof -
  have ok: "length q = nq (model s)" "tool_id s < length (frame_names (model s))"
    using assms by (simp_all add: configuration_def tool_frame_ok_def)
  have after_error: "model (snd (error L q0 s)) = model s"
    "tool_id (snd (error L q0 s)) = tool_id s"
    using task_error [of L q0 s] by (simp_all add: task_def)
  have "oMf (data (snd (callback q (snd (error L q0 s))))) =
      map (frame_placement (model s) q) [0..<length (frame_names (model s))]"
    by (simp add: callback_cases [of q "snd (error L q0 s)"] after_error ok)
  then show ?thesis
    by (simp add: callback_cases [of q s] ok)
qed

theorem callback_effects_witness:
  "configuration gantry_notebook [9 / 2, 1 / 10, 1 / 5, 0, 0, 0] \<and>
   tool_frame_ok gantry_notebook \<and>
   oMf (data (snd (callback [9 / 2, 1 / 10, 1 / 5, 0, 0, 0]
     (snd (error axial [- 1 / 2, 1 / 10, 1 / 5, 0, 0, 0] gantry_notebook))))) =
     [(1, 0, 0, 0, 0), (1, 0, 9 / 2, 1 / 10, 1 / 5)] \<and>
   oMf (data (snd (error axial [- 1 / 2, 1 / 10, 1 / 5, 0, 0, 0] gantry_notebook))) =
     [(1, 0, 0, 0, 0), (1, 0, - 1 / 2, 1 / 10, 1 / 5)] \<and>
   data (snd (callback [9 / 2, 1 / 10, 1 / 5, 0, 0, 0] gantry_notebook)) \<noteq> data gantry_notebook \<and>
   viewer (snd (callback [9 / 2, 1 / 10, 1 / 5, 0, 0, 0] gantry_notebook)) =
     \<lparr>target_transform = Some (cos (pi / 4), sin (pi / 4), - 1 / 2, 1 / 10, 1 / 5),
      current_transform = Some (1, 0, 9 / 2, 1 / 10, 1 / 5),
      displayed = Some [9 / 2, 1 / 10, 1 / 5, 0, 0, 0]\<rparr>"
proof -
  let ?q = "[9 / 2, 1 / 10, 1 / 5, 0, 0, 0] :: real list"
  let ?p = "[- 1 / 2, 1 / 10, 1 / 5, 0, 0, 0] :: real list"
  have upt: "[0..<2] = [0, 1]" by (simp add: upt_rec)
  have c: "configuration gantry_notebook ?q" by (rule gantry_configuration)
  note h = callback_effects [OF c gantry_tool_frame_ok, of axial ?p]
  have e: "oMf (data (snd (error axial ?p gantry_notebook))) =
      [(1, 0, 0, 0, 0), (1, 0, - 1 / 2, 1 / 10, 1 / 5)]"
    by (simp add: error_cases gantry_fields gantry_placement upt)
  from h e show ?thesis
    by (simp add: gantry_configuration gantry_tool_frame_ok gantry_fields gantry_placement upt
        M_tool_def)
qed

end
